theory Spec2Isabelle
  imports Complex_Main "HOL-Library.Word"
begin

section \<open>Constants\<close>

text \<open>
  The four exported constants of the constants module. Times are in milliseconds.
  JavaScript numbers are IEEE doubles; they are idealised here as \<open>real\<close>, so
  \<open>1.8\<close> is the exact rational \<open>18 / 10\<close>.
\<close>

definition CALIBRATION_TIME_MS :: nat where
  "CALIBRATION_TIME_MS = 3000"

definition SILENCE_DETECTION_TIME_MS :: nat where
  "SILENCE_DETECTION_TIME_MS = 500"

definition THRESHOLD_MULTIPLIER :: real where
  "THRESHOLD_MULTIPLIER = 18 / 10"

definition FFT_SIZE :: nat where
  "FFT_SIZE = 256"

section \<open>Data model\<close>

text \<open>
  \<open>RecordingState\<close> is the enum imported from the types module; its five members are
  the ones the component switches over in \<open>renderControls\<close>.
\<close>

datatype RecordingState = IDLE | CALIBRATING | RECORDING | PAUSED | STOPPED

text \<open>The \<open>state\<close> attribute of a MediaRecorder and of an AudioContext.\<close>

datatype recorder_state = RecInactive | RecRecording | RecPaused

datatype context_state = CtxSuspended | CtxRunning | CtxClosed

datatype orientation = Landscape | Portrait

text \<open>The four requests the component makes on the MediaRecorder (the capture sink).\<close>

datatype sink_call = SinkStart | SinkPause | SinkResume | SinkStop

text \<open>
  The callbacks the component hands to \<open>setTimeout\<close> and \<open>setInterval\<close>.
  The calibration timeout closes over the two interval ids it clears and over the
  \<open>startActualRecording\<close> (hence \<open>runAudioAnalysis\<close>) of the render in which
  \<open>startCalibration\<close> was created; the \<open>recordingState\<close> that closure sees is
  the third argument.
\<close>

datatype callback =
    SilenceTimeout
  | CalibrationTimeout nat nat RecordingState
  | CollectCalibrationData
  | CountdownTick

text \<open>An object URL stands for the blob it was created from: the recorded chunk sizes.\<close>

datatype url = ObjectURL "nat list"

text \<open>
  Where the \<open>try\<close> block of \<open>startCalibration\<close> can throw: \<open>getUserMedia\<close>
  rejects (nothing acquired), the AudioContext constructor throws (the stream is held), or
  wiring the source node throws (stream and context are held). The string is the
  \<open>name\<close> of the thrown error.
\<close>

datatype failure_stage = AtGetUserMedia | AtAudioContext | AtSourceNode context_state

datatype acquire_outcome = Failed failure_stage string | Acquired context_state

text \<open>
  The component's React state and refs (first block of fields), followed by the part of
  the host the component acts on: the clock, the timer table, the pending animation-frame
  requests (each with the \<open>recordingState\<close> its closure captured), the media streams
  whose tracks are live, the log of requests made on the MediaRecorder together with the
  recorder's state at the moment of each request, the number of \<open>stop\<close> events the
  recorder still has to deliver, and the number of \<open>getUserMedia\<close> calls made.

  \<open>calibrationData\<close> is the array local to one \<open>startCalibration\<close> call; it is a
  field here because its two closures (the collection interval and the calibration
  timeout) outlive the call. Timer, frame and stream ids start at 1, as in browsers, so a
  ref holding an id is truthy exactly when it is \<open>Some\<close> (timer ref) or non-zero
  (frame ref).
\<close>

record app =
  recordingState :: RecordingState
  videoUrl :: "url option"
  error :: "string option"
  calibrationCountdown :: int
  hasPermissions :: bool
  streamRef :: "nat option"
  mediaRecorderRef :: "recorder_state option"
  recordedChunksRef :: "nat list"
  audioContextRef :: "context_state option"
  analyserRef :: bool
  silenceTimerRef :: "nat option"
  silenceThresholdRef :: real
  animationFrameRef :: nat
  calibrationData :: "real list"
  now :: nat
  timers :: "(nat \<times> nat \<times> callback) list"
  nextTimerId :: nat
  frameRequests :: "(nat \<times> RecordingState) list"
  nextFrameId :: nat
  liveStreams :: "nat list"
  nextStreamId :: nat
  sinkLog :: "(sink_call \<times> recorder_state) list"
  stopEvents :: nat
  getUserMediaCalls :: nat

definition initial :: app where
  "initial = \<lparr> recordingState = IDLE, videoUrl = None, error = None,
     calibrationCountdown = int CALIBRATION_TIME_MS, hasPermissions = False,
     streamRef = None, mediaRecorderRef = None, recordedChunksRef = [],
     audioContextRef = None, analyserRef = False, silenceTimerRef = None,
     silenceThresholdRef = 0, animationFrameRef = 0, calibrationData = [],
     now = 0, timers = [], nextTimerId = 1, frameRequests = [], nextFrameId = 1,
     liveStreams = [], nextStreamId = 1, sinkLog = [], stopEvents = 0,
     getUserMediaCalls = 0 \<rparr>"

section \<open>Host operations\<close>

definition setTimeout :: "callback \<Rightarrow> nat \<Rightarrow> app \<Rightarrow> nat \<times> app" where
  "setTimeout cb delay s =
     (nextTimerId s,
      s\<lparr> timers := timers s @ [(nextTimerId s, now s + delay, cb)],
         nextTimerId := Suc (nextTimerId s) \<rparr>)"

definition clearTimeout :: "nat \<Rightarrow> app \<Rightarrow> app" where
  "clearTimeout tid s = s\<lparr> timers := filter (\<lambda>(i, due, cb). i \<noteq> tid) (timers s) \<rparr>"

text \<open>Intervals share the id pool and the table of timeouts; the period is re-added when
  an interval fires (see \<open>timerFires\<close>).\<close>

definition setInterval :: "callback \<Rightarrow> nat \<Rightarrow> app \<Rightarrow> nat \<times> app" where
  "setInterval cb period s = setTimeout cb period s"

definition clearInterval :: "nat \<Rightarrow> app \<Rightarrow> app" where
  "clearInterval tid s = clearTimeout tid s"

definition requestAnimationFrame :: "RecordingState \<Rightarrow> app \<Rightarrow> nat \<times> app" where
  "requestAnimationFrame closureState s =
     (nextFrameId s,
      s\<lparr> frameRequests := frameRequests s @ [(nextFrameId s, closureState)],
         nextFrameId := Suc (nextFrameId s) \<rparr>)"

definition cancelAnimationFrame :: "nat \<Rightarrow> app \<Rightarrow> app" where
  "cancelAnimationFrame fid s =
     s\<lparr> frameRequests := filter (\<lambda>(i, c). i \<noteq> fid) (frameRequests s) \<rparr>"

text \<open>
  The MediaRecorder's reaction to a request, by its state at the request. \<open>pause\<close> and
  \<open>resume\<close> only act from the state they are meant for (on an inactive recorder they
  throw); \<open>stop\<close> on an inactive recorder does nothing.
\<close>

definition recorder_after :: "sink_call \<Rightarrow> recorder_state \<Rightarrow> recorder_state" where
  "recorder_after c st =
     (case c of
        SinkStart \<Rightarrow> (if st = RecInactive then RecRecording else st)
      | SinkPause \<Rightarrow> (if st = RecRecording then RecPaused else st)
      | SinkResume \<Rightarrow> (if st = RecPaused then RecRecording else st)
      | SinkStop \<Rightarrow> RecInactive)"

text \<open>A request on \<open>mediaRecorderRef.current\<close>: logged with the recorder's state at
  the request; a \<open>stop\<close> of a running recorder queues its \<open>stop\<close> event.\<close>

definition sinkRequest :: "sink_call \<Rightarrow> app \<Rightarrow> app" where
  "sinkRequest c s =
     (case mediaRecorderRef s of
        None \<Rightarrow> s
      | Some st \<Rightarrow>
          s\<lparr> mediaRecorderRef := Some (recorder_after c st),
             sinkLog := sinkLog s @ [(c, st)],
             stopEvents := (if c = SinkStop \<and> st \<noteq> RecInactive
                            then Suc (stopEvents s) else stopEvents s) \<rparr>)"

text \<open>
  \<open>frequencyBinCount\<close> is half the analyser's \<open>fftSize\<close>, which \<open>startCalibration\<close>
  sets to \<open>FFT_SIZE\<close>. \<open>new Uint8Array(frequencyBinCount)\<close> is zero-filled and
  \<open>getByteFrequencyData\<close> overwrites it with the current spectrum, up to its length.
\<close>

definition frequencyBinCount :: nat where
  "frequencyBinCount = FFT_SIZE div 2"

definition getByteFrequencyData :: "8 word list \<Rightarrow> 8 word list" where
  "getByteFrequencyData spectrum =
     take frequencyBinCount (spectrum @ replicate frequencyBinCount 0)"

section \<open>The component's functions\<close>

text \<open>\<open>dataArray.reduce((acc, val) => acc + val, 0) / dataArray.length\<close>\<close>

definition averageVolume :: "8 word list \<Rightarrow> real" where
  "averageVolume dataArray =
     real (foldl (\<lambda>acc val. acc + unat val) 0 dataArray) / real (length dataArray)"

text \<open>\<open>averageVolume < silenceThresholdRef.current * THRESHOLD_MULTIPLIER\<close>\<close>

definition isSilent :: "real \<Rightarrow> real \<Rightarrow> bool" where
  "isSilent volume silenceThreshold = (volume < silenceThreshold * THRESHOLD_MULTIPLIER)"

definition cleanup :: "app \<Rightarrow> app" where
  "cleanup s =
     (let s1 = (if animationFrameRef s \<noteq> 0 then cancelAnimationFrame (animationFrameRef s) s
                else s);
          s2 = (case streamRef s1 of
                  Some sid \<Rightarrow> s1\<lparr> liveStreams := removeAll sid (liveStreams s1),
                                  streamRef := None \<rparr>
                | None \<Rightarrow> s1);
          s3 = (case audioContextRef s2 of
                  Some c \<Rightarrow> (if c \<noteq> CtxClosed then s2\<lparr> audioContextRef := Some CtxClosed \<rparr>
                             else s2)
                | None \<Rightarrow> s2)
      in s3\<lparr> mediaRecorderRef := None, recordedChunksRef := [] \<rparr>)"

text \<open>The callback armed by \<open>runAudioAnalysis\<close> for \<open>SILENCE_DETECTION_TIME_MS\<close>.\<close>

definition silenceTimeoutCallback :: "app \<Rightarrow> app" where
  "silenceTimeoutCallback s =
     (if mediaRecorderRef s = Some RecRecording
      then (sinkRequest SinkPause s)\<lparr> recordingState := PAUSED \<rparr>
      else s)"

text \<open>
  One run of \<open>runAudioAnalysis\<close>. \<open>closureState\<close> is the \<open>recordingState\<close> the
  callback closed over, \<open>spectrum\<close> what the analyser holds at this moment.
\<close>

definition runAudioAnalysis :: "RecordingState \<Rightarrow> 8 word list \<Rightarrow> app \<Rightarrow> app" where
  "runAudioAnalysis closureState spectrum s =
     (if \<not> analyserRef s \<or> closureState = CALIBRATING then
        (let (fid, s') = requestAnimationFrame closureState s
         in s'\<lparr> animationFrameRef := fid \<rparr>)
      else
        (let dataArray = getByteFrequencyData spectrum;
             silent = isSilent (averageVolume dataArray) (silenceThresholdRef s);
             s1 = (case mediaRecorderRef s of
                     None \<Rightarrow> s
                   | Some st \<Rightarrow>
                       if st = RecRecording \<and> silent then
                         (if silenceTimerRef s = None then
                            (let (tid, s') = setTimeout SilenceTimeout SILENCE_DETECTION_TIME_MS s
                             in s'\<lparr> silenceTimerRef := Some tid \<rparr>)
                          else s)
                       else if st = RecRecording \<and> \<not> silent then
                         (case silenceTimerRef s of
                            Some tid \<Rightarrow> (clearTimeout tid s)\<lparr> silenceTimerRef := None \<rparr>
                          | None \<Rightarrow> s)
                       else if st = RecPaused \<and> \<not> silent then
                         (sinkRequest SinkResume s)\<lparr> recordingState := RECORDING \<rparr>
                       else s);
             (fid, s2) = requestAnimationFrame closureState s1
         in s2\<lparr> animationFrameRef := fid \<rparr>))"

text \<open>The \<open>ondataavailable\<close> and \<open>onstop\<close> handlers installed on the recorder.\<close>

definition ondataavailable :: "nat \<Rightarrow> app \<Rightarrow> app" where
  "ondataavailable dataSize s =
     (if dataSize > 0 then s\<lparr> recordedChunksRef := recordedChunksRef s @ [dataSize] \<rparr>
      else s)"

definition onstop :: "app \<Rightarrow> app" where
  "onstop s = cleanup (s\<lparr> videoUrl := Some (ObjectURL (recordedChunksRef s)) \<rparr>)"

definition startActualRecording :: "RecordingState \<Rightarrow> 8 word list \<Rightarrow> app \<Rightarrow> app" where
  "startActualRecording closureState spectrum s =
     (if streamRef s = None then s
      else
        (let s1 = s\<lparr> recordingState := RECORDING, mediaRecorderRef := Some RecInactive \<rparr>;
             s2 = sinkRequest SinkStart s1
         in runAudioAnalysis closureState spectrum s2))"

text \<open>The NoiseFloor computed when the calibration window expires (stored, despite its
  name, in \<open>silenceThresholdRef\<close>).\<close>

definition noiseFloor :: "real list \<Rightarrow> real" where
  "noiseFloor cd =
     (if length cd > 0 then
        (let average = foldl (\<lambda>a b. a + b) 0 cd / real (length cd)
         in if average > 0 then average else 1)
      else 1)"

definition collectCalibrationData :: "8 word list \<Rightarrow> app \<Rightarrow> app" where
  "collectCalibrationData spectrum s =
     (if audioContextRef s = Some CtxRunning \<and> analyserRef s then
        s\<lparr> calibrationData :=
             calibrationData s @ [averageVolume (getByteFrequencyData spectrum)] \<rparr>
      else s)"

definition countdownTick :: "app \<Rightarrow> app" where
  "countdownTick s = s\<lparr> calibrationCountdown := calibrationCountdown s - 100 \<rparr>"

definition calibrationTimeoutCallback ::
  "nat \<Rightarrow> nat \<Rightarrow> RecordingState \<Rightarrow> 8 word list \<Rightarrow> app \<Rightarrow> app" where
  "calibrationTimeoutCallback collectionInterval countdownInterval closureState spectrum s =
     (let s1 = clearInterval countdownInterval (clearInterval collectionInterval s);
          s2 = s1\<lparr> silenceThresholdRef := noiseFloor (calibrationData s1) \<rparr>
      in startActualRecording closureState spectrum s2)"

definition orientation_name :: "orientation \<Rightarrow> string" where
  "orientation_name orient = (case orient of Landscape \<Rightarrow> ''landscape'' | Portrait \<Rightarrow> ''portrait'')"

definition constraint_message :: "orientation \<Rightarrow> string" where
  "constraint_message orient =
     ''The selected camera does not support '' @ orientation_name orient @
     '' orientation. Please try another setting or camera.''"

definition access_message :: string where
  "access_message = ''Could not access camera/microphone. Please check permissions.''"

text \<open>The \<open>catch\<close> block of \<open>startCalibration\<close>.\<close>

definition catchAcquisition :: "orientation \<Rightarrow> string \<Rightarrow> app \<Rightarrow> app" where
  "catchAcquisition orient name s =
     cleanup (s\<lparr> error := Some (if name = ''OverconstrainedError''
                                  then constraint_message orient else access_message),
                 recordingState := IDLE \<rparr>)"

text \<open>A resolved \<open>getUserMedia\<close>: a fresh stream with live tracks, stored in
  \<open>streamRef\<close>; then \<open>setHasPermissions(true)\<close>.\<close>

definition acquireStream :: "app \<Rightarrow> app" where
  "acquireStream s =
     s\<lparr> streamRef := Some (nextStreamId s),
        liveStreams := liveStreams s @ [nextStreamId s],
        nextStreamId := Suc (nextStreamId s),
        hasPermissions := True \<rparr>"

text \<open>What the \<open>try\<close> block has done by the time it throws at the given place.\<close>

fun partialAcquire :: "failure_stage \<Rightarrow> app \<Rightarrow> app" where
  "partialAcquire AtGetUserMedia s = s"
| "partialAcquire AtAudioContext s = acquireStream s"
| "partialAcquire (AtSourceNode ctx) s = (acquireStream s)\<lparr> audioContextRef := Some ctx \<rparr>"

text \<open>
  \<open>startCalibration\<close>, with the outcome of the acquisition given by the host. The
  \<open>await\<close> is taken as one step. \<open>closureState\<close> is the \<open>recordingState\<close> of the
  render that created this \<open>startCalibration\<close>, the one current when it is invoked.
\<close>

definition startCalibration :: "orientation \<Rightarrow> acquire_outcome \<Rightarrow> app \<Rightarrow> app" where
  "startCalibration orient outcome s =
     (let closureState = recordingState s;
          s0 = s\<lparr> recordingState := CALIBRATING, error := None, videoUrl := None,
                  recordedChunksRef := [],
                  getUserMediaCalls := Suc (getUserMediaCalls s) \<rparr>
      in case outcome of
           Failed stage name \<Rightarrow> catchAcquisition orient name (partialAcquire stage s0)
         | Acquired ctx \<Rightarrow>
             (let s1 = (acquireStream s0)\<lparr> audioContextRef := Some ctx, analyserRef := True,
                         calibrationData := [],
                         calibrationCountdown := int CALIBRATION_TIME_MS \<rparr>;
                  (countdownInterval, s2) = setInterval CountdownTick 100 s1;
                  (collectionInterval, s3) = setInterval CollectCalibrationData 50 s2;
                  (tid, s4) = setTimeout
                     (CalibrationTimeout collectionInterval countdownInterval closureState)
                     CALIBRATION_TIME_MS s3
              in s4))"

definition stopRecording :: "app \<Rightarrow> app" where
  "stopRecording s =
     (let s1 = (if mediaRecorderRef s \<noteq> None \<and> recordingState s \<noteq> IDLE
                   \<and> recordingState s \<noteq> STOPPED
                then (sinkRequest SinkStop s)\<lparr> recordingState := STOPPED \<rparr>
                else s)
      in case silenceTimerRef s1 of
           Some tid \<Rightarrow> clearTimeout tid s1
         | None \<Rightarrow> s1)"

definition handleReset :: "app \<Rightarrow> app" where
  "handleReset s = cleanup (s\<lparr> recordingState := IDLE, videoUrl := None, error := None \<rparr>)"

text \<open>
  \<open>renderControls\<close>: the handler behind the button shown in each state. While
  calibrating the button is rendered \<open>disabled\<close>.
\<close>

datatype control = StartButton | StopButton | ResetButton

definition renderControls :: "RecordingState \<Rightarrow> control option" where
  "renderControls rs =
     (case rs of
        IDLE \<Rightarrow> Some StartButton
      | CALIBRATING \<Rightarrow> None
      | RECORDING \<Rightarrow> Some StopButton
      | PAUSED \<Rightarrow> Some StopButton
      | STOPPED \<Rightarrow> Some ResetButton)"

section \<open>Executions\<close>

text \<open>
  What can happen to the component: one of its three handlers is invoked, the host runs
  the pending animation-frame callbacks, a timer's callback is run, or the recorder
  delivers a \<open>dataavailable\<close> or \<open>stop\<close> event. Events carry the time at which
  they happen; \<open>signal\<close> gives the analyser's spectrum at each time.
\<close>

datatype event =
    ClickStart orientation acquire_outcome
  | ClickStop
  | ClickReset
  | AnimationFrame
  | TimerFires nat
  | DataAvailable nat
  | RecorderStopped

text \<open>A timer's callback runs only if the timer is still in the table and due; a timeout
  leaves the table when it runs, an interval is re-armed one period later.\<close>

definition timerFires :: "nat \<Rightarrow> 8 word list \<Rightarrow> app \<Rightarrow> app" where
  "timerFires tid spectrum s =
     (case find (\<lambda>(i, due, cb). i = tid) (timers s) of
        None \<Rightarrow> s
      | Some (i, due, cb) \<Rightarrow>
          if now s < due then s
          else
            (case cb of
               SilenceTimeout \<Rightarrow> silenceTimeoutCallback (clearTimeout tid s)
             | CalibrationTimeout collectionInterval countdownInterval closureState \<Rightarrow>
                 calibrationTimeoutCallback collectionInterval countdownInterval closureState
                   spectrum (clearTimeout tid s)
             | CollectCalibrationData \<Rightarrow>
                 collectCalibrationData spectrum
                   (s\<lparr> timers := map (\<lambda>(i, d, c). if i = tid then (i, d + 50, c) else (i, d, c))
                                    (timers s) \<rparr>)
             | CountdownTick \<Rightarrow>
                 countdownTick
                   (s\<lparr> timers := map (\<lambda>(i, d, c). if i = tid then (i, d + 100, c) else (i, d, c))
                                    (timers s) \<rparr>)))"

text \<open>An animation frame runs the callbacks requested before it; what they request goes
  to the next frame.\<close>

definition animationFrame :: "8 word list \<Rightarrow> app \<Rightarrow> app" where
  "animationFrame spectrum s =
     foldl (\<lambda>acc (fid, closureState). runAudioAnalysis closureState spectrum acc)
       (s\<lparr> frameRequests := [] \<rparr>) (frameRequests s)"

definition handle :: "8 word list \<Rightarrow> event \<Rightarrow> app \<Rightarrow> app" where
  "handle spectrum ev s =
     (case ev of
        ClickStart orient outcome \<Rightarrow> startCalibration orient outcome s
      | ClickStop \<Rightarrow> stopRecording s
      | ClickReset \<Rightarrow> handleReset s
      | AnimationFrame \<Rightarrow> animationFrame spectrum s
      | TimerFires tid \<Rightarrow> timerFires tid spectrum s
      | DataAvailable dataSize \<Rightarrow>
          (if mediaRecorderRef s \<noteq> None then ondataavailable dataSize s else s)
      | RecorderStopped \<Rightarrow>
          (if stopEvents s > 0 then onstop (s\<lparr> stopEvents := stopEvents s - 1 \<rparr>) else s))"

text \<open>Time does not run backwards: an event stamped before \<open>now\<close> is dropped.\<close>

definition step :: "(nat \<Rightarrow> 8 word list) \<Rightarrow> app \<Rightarrow> nat \<times> event \<Rightarrow> app" where
  "step signal s tev =
     (case tev of (t, ev) \<Rightarrow> if t < now s then s else handle (signal t) ev (s\<lparr> now := t \<rparr>))"

definition run :: "(nat \<Rightarrow> 8 word list) \<Rightarrow> app \<Rightarrow> (nat \<times> event) list \<Rightarrow> app" where
  "run signal s evs = foldl (step signal) s evs"

text \<open>Whether the rendered controls offer the handler an event invokes; host events are
  not subject to the controls.\<close>

definition offered :: "app \<Rightarrow> event \<Rightarrow> bool" where
  "offered s ev =
     (case ev of
        ClickStart orient outcome \<Rightarrow> renderControls (recordingState s) = Some StartButton
      | ClickStop \<Rightarrow> renderControls (recordingState s) = Some StopButton
      | ClickReset \<Rightarrow> renderControls (recordingState s) = Some ResetButton
      | _ \<Rightarrow> True)"

fun user_trace :: "(nat \<Rightarrow> 8 word list) \<Rightarrow> app \<Rightarrow> (nat \<times> event) list \<Rightarrow> bool" where
  "user_trace signal s [] = True"
| "user_trace signal s ((t, ev) # evs) =
     (now s \<le> t \<and> offered s ev \<and> user_trace signal (step signal s (t, ev)) evs)"

section \<open>Well-formed sink requests\<close>

text \<open>
  A logged request is in order when a \<open>pause\<close> met a recording recorder and a
  \<open>resume\<close> met a paused one.
\<close>

fun sink_request_ok :: "sink_call \<times> recorder_state \<Rightarrow> bool" where
  "sink_request_ok (SinkPause, st) = (st = RecRecording)"
| "sink_request_ok (SinkResume, st) = (st = RecPaused)"
| "sink_request_ok (SinkStart, st) = True"
| "sink_request_ok (SinkStop, st) = True"

definition sink_log_ok :: "app \<Rightarrow> bool" where
  "sink_log_ok s = list_all sink_request_ok (sinkLog s)"

section \<open>Example executions\<close>

text \<open>
  A room with a steady tone of level 10 in every bin, and 100 ms of speech (level 200)
  starting 3 s in. Calibrating on the tone gives the noise floor 10, hence the threshold
  18: the tone is silence, the speech is sound.
\<close>

definition room_tone :: "nat \<Rightarrow> 8 word list" where
  "room_tone t = replicate 128 (if 3000 \<le> t \<and> t < 3100 then 200 else 10)"

text \<open>Start, one calibration sample, and the calibration window expiring.\<close>

definition calibrating_trace :: "(nat \<times> event) list" where
  "calibrating_trace =
     [(0, ClickStart Landscape (Acquired CtxRunning)), (50, TimerFires 2)]"

definition recording_trace :: "(nat \<times> event) list" where
  "recording_trace =
     [(0, ClickStart Landscape (Acquired CtxRunning)), (50, TimerFires 2), (3000, TimerFires 3)]"

text \<open>A first session: silence sets in at 3100 and the silence timer (id 4, due at 3600)
  is delivered one millisecond early, respectively on time.\<close>

definition early_trace :: "(nat \<times> event) list" where
  "early_trace =
     [(0, ClickStart Landscape (Acquired CtxRunning)), (50, TimerFires 2), (3000, TimerFires 3),
      (3050, AnimationFrame), (3100, AnimationFrame), (3150, AnimationFrame),
      (3599, TimerFires 4)]"

definition pause_trace :: "(nat \<times> event) list" where
  "pause_trace =
     [(0, ClickStart Landscape (Acquired CtxRunning)), (50, TimerFires 2), (3000, TimerFires 3),
      (3050, AnimationFrame), (3100, AnimationFrame), (3150, AnimationFrame),
      (3599, TimerFires 4), (3600, TimerFires 4)]"

text \<open>
  A first session stopped 100 ms into a silence, then reset, then a second session whose
  recording starts at 9000 into uninterrupted silence: twelve silent samples 50 ms apart
  (9000 to 9550), after which the old timer id is tried once more.
\<close>

definition second_session_trace :: "(nat \<times> event) list" where
  "second_session_trace =
     [(0, ClickStart Landscape (Acquired CtxRunning)), (50, TimerFires 2), (3000, TimerFires 3),
      (3050, AnimationFrame), (3100, AnimationFrame), (3200, ClickStop),
      (3210, RecorderStopped), (5000, ClickReset),
      (6000, ClickStart Landscape (Acquired CtxRunning)), (6050, TimerFires 6),
      (9000, TimerFires 7),
      (9050, AnimationFrame), (9100, AnimationFrame), (9150, AnimationFrame),
      (9200, AnimationFrame), (9250, AnimationFrame), (9300, AnimationFrame),
      (9350, AnimationFrame), (9400, AnimationFrame), (9450, AnimationFrame),
      (9500, AnimationFrame), (9550, AnimationFrame), (9600, TimerFires 4)]"

text \<open>A stop request one second into calibration, and the calibration window expiring
  afterwards.\<close>

definition stop_while_calibrating_trace :: "(nat \<times> event) list" where
  "stop_while_calibrating_trace =
     [(0, ClickStart Landscape (Acquired CtxRunning)), (50, TimerFires 2), (1000, ClickStop)]"

definition calibration_completes_trace :: "(nat \<times> event) list" where
  "calibration_completes_trace =
     [(0, ClickStart Landscape (Acquired CtxRunning)), (50, TimerFires 2), (1000, ClickStop),
      (3000, TimerFires 3)]"

text \<open>
  The same room with one more burst of sound, a single sample at 4000, and a first
  session that pauses at 3600, is resumed by that sample and then records silence: twelve
  silent samples 50 ms apart (4050 to 4600), after which the old timer id is tried again.
\<close>

definition click_tone :: "nat \<Rightarrow> 8 word list" where
  "click_tone t = replicate 128 (if (3000 \<le> t \<and> t < 3100) \<or> t = 4000 then 200 else 10)"

definition resumed_trace :: "(nat \<times> event) list" where
  "resumed_trace =
     [(0, ClickStart Landscape (Acquired CtxRunning)), (50, TimerFires 2), (3000, TimerFires 3),
      (3050, AnimationFrame), (3100, AnimationFrame), (3150, AnimationFrame),
      (3600, TimerFires 4), (4000, AnimationFrame),
      (4050, AnimationFrame), (4100, AnimationFrame), (4150, AnimationFrame),
      (4200, AnimationFrame), (4250, AnimationFrame), (4300, AnimationFrame),
      (4350, AnimationFrame), (4400, AnimationFrame), (4450, AnimationFrame),
      (4500, AnimationFrame), (4550, AnimationFrame), (4600, AnimationFrame),
      (4600, TimerFires 4), (4600, TimerFires 5)]"

section \<open>Sampling and classification\<close>

lemma foldl_unat_sum: "foldl (\<lambda>acc val. acc + unat val) a xs = a + sum_list (map unat xs)"
  by (induction xs arbitrary: a) simp_all

lemma foldl_plus_sum: "foldl (\<lambda>a b. a + b) (z::real) xs = z + sum_list xs"
  by (induction xs arbitrary: z) simp_all


lemma getByteFrequencyData_full:
  "length spectrum = 128 \<Longrightarrow> getByteFrequencyData spectrum = spectrum"
  by (simp add: getByteFrequencyData_def frequencyBinCount_def FFT_SIZE_def)

lemma averageVolume_mean:
  "averageVolume dataArray = real (sum_list (map unat dataArray)) / real (length dataArray)"
  by (simp add: averageVolume_def foldl_unat_sum)

lemma averageVolume_replicate:
  "averageVolume (getByteFrequencyData (replicate 128 v)) = real (unat v)"
  by (simp add: getByteFrequencyData_full averageVolume_mean map_replicate_const
      sum_list_replicate)



text \<open>
  Claim C9, as amended. Classification is monotone in the threshold in this direction:
  raising the threshold never turns a silent classification of a sample into sound
  (equivalently, lowering it never turns sound into silent).
\<close>

theorem classify_monotone_in_threshold:
  "n1 * THRESHOLD_MULTIPLIER \<le> n2 * THRESHOLD_MULTIPLIER \<Longrightarrow> isSilent v n1 \<Longrightarrow> isSilent v n2"
  by (simp add: isSilent_def)

theorem classify_monotone_in_threshold_witness:
  "(10 :: real) * THRESHOLD_MULTIPLIER \<le> 20 * THRESHOLD_MULTIPLIER
   \<and> isSilent 5 10 \<and> isSilent 5 20"
proof -
  have le: "(10 :: real) * THRESHOLD_MULTIPLIER \<le> 20 * THRESHOLD_MULTIPLIER"
    by (simp add: THRESHOLD_MULTIPLIER_def)
  have low: "isSilent 5 10"
    by (simp add: isSilent_def THRESHOLD_MULTIPLIER_def)
  from classify_monotone_in_threshold [OF le low] le low show ?thesis by simp
qed

text \<open>The claim as stated fails: a sample of energy 5 is sound against the threshold 1.8
  and silent against the raised threshold 18.\<close>

theorem raising_threshold_silences_sound:
  "\<not> isSilent (averageVolume (getByteFrequencyData (replicate 128 5))) 1
   \<and> (1 :: real) * THRESHOLD_MULTIPLIER \<le> 10 * THRESHOLD_MULTIPLIER
   \<and> isSilent (averageVolume (getByteFrequencyData (replicate 128 5))) 10"
  by (simp add: averageVolume_replicate isSilent_def THRESHOLD_MULTIPLIER_def)

section \<open>The noise floor\<close>

lemma noiseFloor_eq:
  "noiseFloor cd =
     (if cd \<noteq> [] \<and> 0 < sum_list cd / real (length cd) then sum_list cd / real (length cd)
      else 1)"
  by (simp add: noiseFloor_def foldl_plus_sum Let_def)

lemma noiseFloor_pos: "0 < noiseFloor cd"
  by (simp add: noiseFloor_def Let_def)

lemma thr_sinkRequest: "silenceThresholdRef (sinkRequest c s) = silenceThresholdRef s"
  by (simp add: sinkRequest_def split: option.splits)

lemma thr_runAudioAnalysis:
  "silenceThresholdRef (runAudioAnalysis cs sp s) = silenceThresholdRef s"
  by (simp add: runAudioAnalysis_def requestAnimationFrame_def setTimeout_def clearTimeout_def
      thr_sinkRequest Let_def split: option.splits)

lemma thr_startActualRecording:
  "silenceThresholdRef (startActualRecording cs sp s) = silenceThresholdRef s"
  by (simp add: startActualRecording_def thr_runAudioAnalysis thr_sinkRequest Let_def)

lemma thr_calibrationTimeoutCallback:
  "silenceThresholdRef (calibrationTimeoutCallback ci cn cs sp s) = noiseFloor (calibrationData s)"
  by (simp add: calibrationTimeoutCallback_def clearInterval_def clearTimeout_def
      thr_startActualRecording Let_def)

text \<open>
  Claim C4, as amended. When the calibration window expires the noise floor is set to the
  arithmetic mean of the collected samples when that mean is greater than 0, and to 1
  when the mean is 0 or no samples were collected.
\<close>

theorem noiseFloor_mean_or_fallback:
  "silenceThresholdRef (calibrationTimeoutCallback ci cn cs sp s) =
     (if calibrationData s \<noteq> []
         \<and> 0 < sum_list (calibrationData s) / real (length (calibrationData s))
      then sum_list (calibrationData s) / real (length (calibrationData s))
      else 1)"
  by (simp only: thr_calibrationTimeoutCallback noiseFloor_eq)

theorem noiseFloor_mean_or_fallback_witness:
  "silenceThresholdRef
     (calibrationTimeoutCallback 2 1 IDLE (room_tone 3000) (initial\<lparr> calibrationData := [1 / 2] \<rparr>))
     = 1 / 2
   \<and> silenceThresholdRef
     (calibrationTimeoutCallback 2 1 IDLE (room_tone 3000) (initial\<lparr> calibrationData := [0, 0] \<rparr>))
     = 1
   \<and> silenceThresholdRef (calibrationTimeoutCallback 2 1 IDLE (room_tone 3000) initial) = 1"
  using noiseFloor_mean_or_fallback [of 2 1 IDLE "room_tone 3000" "initial\<lparr> calibrationData := [1 / 2] \<rparr>"]
    noiseFloor_mean_or_fallback [of 2 1 IDLE "room_tone 3000" "initial\<lparr> calibrationData := [0, 0] \<rparr>"]
    noiseFloor_mean_or_fallback [of 2 1 IDLE "room_tone 3000" initial]
  by (simp add: initial_def)

text \<open>The claim as stated fails: one calibration sample of energy 1/2 (half the bins at
  magnitude 1) gives the noise floor 1/2, not \<open>max (1/2) 1 = 1\<close>.\<close>

theorem noiseFloor_below_one:
  "noiseFloor [averageVolume (getByteFrequencyData (replicate 64 1 @ replicate 64 0))] = 1 / 2
   \<and> noiseFloor [averageVolume (getByteFrequencyData (replicate 64 1 @ replicate 64 0))]
       \<noteq> max (averageVolume (getByteFrequencyData (replicate 64 1 @ replicate 64 0))) 1"
proof -
  have "averageVolume (getByteFrequencyData (replicate 64 1 @ replicate 64 0)) = 1 / 2"
    by (simp add: getByteFrequencyData_full averageVolume_mean map_replicate_const
        sum_list_replicate)
  then show ?thesis by (simp add: noiseFloor_def)
qed

text \<open>
  Claim C5. Whatever samples calibration collected, none or some, the computed noise
  floor is strictly positive, both as a function of the samples and as stored when the
  calibration window expires.
\<close>

theorem noiseFloor_positive:
  "0 < noiseFloor cd \<and> 0 < silenceThresholdRef (calibrationTimeoutCallback ci cn cs sp s)"
  by (simp add: noiseFloor_pos thr_calibrationTimeoutCallback)

theorem noiseFloor_positive_witness:
  "0 < noiseFloor [0, 0, 0]
   \<and> 0 < silenceThresholdRef (calibrationTimeoutCallback 2 1 IDLE (room_tone 3000) initial)"
  using noiseFloor_positive [of "[0, 0, 0]" 2 1 IDLE "room_tone 3000" initial]
  by simp

section \<open>Evaluating the example executions\<close>

lemmas exec_defs =
  run_def step_def handle_def startCalibration_def acquireStream_def setInterval_def
  setTimeout_def clearTimeout_def clearInterval_def timerFires_def collectCalibrationData_def
  countdownTick_def calibrationTimeoutCallback_def noiseFloor_def startActualRecording_def
  sinkRequest_def recorder_after_def runAudioAnalysis_def requestAnimationFrame_def
  cancelAnimationFrame_def animationFrame_def silenceTimeoutCallback_def stopRecording_def
  onstop_def cleanup_def handleReset_def ondataavailable_def isSilent_def
  THRESHOLD_MULTIPLIER_def CALIBRATION_TIME_MS_def SILENCE_DETECTION_TIME_MS_def
  averageVolume_replicate room_tone_def offered_def renderControls_def Let_def

lemma calibrating_state:
  "run room_tone initial calibrating_trace =
     \<lparr> recordingState = CALIBRATING, videoUrl = None, error = None,
       calibrationCountdown = 3000, hasPermissions = True, streamRef = Some 1,
       mediaRecorderRef = None, recordedChunksRef = [],
       audioContextRef = Some CtxRunning, analyserRef = True,
       silenceTimerRef = None, silenceThresholdRef = 0, animationFrameRef = 0,
       calibrationData = [10], now = 50,
       timers = [(1, 100, CountdownTick), (2, 100, CollectCalibrationData),
                 (3, 3000, CalibrationTimeout 2 1 IDLE)],
       nextTimerId = 4, frameRequests = [], nextFrameId = 1, liveStreams = [1],
       nextStreamId = 2, sinkLog = [], stopEvents = 0, getUserMediaCalls = 1 \<rparr>"
  by (simp add: exec_defs initial_def calibrating_trace_def)

lemma recording_state:
  "run room_tone initial recording_trace =
     \<lparr> recordingState = RECORDING, videoUrl = None, error = None,
       calibrationCountdown = 3000, hasPermissions = True, streamRef = Some 1,
       mediaRecorderRef = Some RecRecording, recordedChunksRef = [],
       audioContextRef = Some CtxRunning, analyserRef = True,
       silenceTimerRef = None, silenceThresholdRef = 10, animationFrameRef = 1,
       calibrationData = [10], now = 3000, timers = [], nextTimerId = 4,
       frameRequests = [(1, IDLE)], nextFrameId = 2, liveStreams = [1],
       nextStreamId = 2, sinkLog = [(SinkStart, RecInactive)], stopEvents = 0,
       getUserMediaCalls = 1 \<rparr>"
  by (simp add: exec_defs initial_def recording_trace_def)

lemma early_state:
  "run room_tone initial early_trace =
     \<lparr> recordingState = RECORDING, videoUrl = None, error = None,
       calibrationCountdown = 3000, hasPermissions = True, streamRef = Some 1,
       mediaRecorderRef = Some RecRecording, recordedChunksRef = [],
       audioContextRef = Some CtxRunning, analyserRef = True,
       silenceTimerRef = Some 4, silenceThresholdRef = 10, animationFrameRef = 4,
       calibrationData = [10], now = 3599, timers = [(4, 3600, SilenceTimeout)],
       nextTimerId = 5, frameRequests = [(4, IDLE)], nextFrameId = 5, liveStreams = [1],
       nextStreamId = 2, sinkLog = [(SinkStart, RecInactive)], stopEvents = 0,
       getUserMediaCalls = 1 \<rparr>"
  by (simp add: exec_defs initial_def early_trace_def)

lemma paused_state:
  "run room_tone initial pause_trace =
     \<lparr> recordingState = PAUSED, videoUrl = None, error = None,
       calibrationCountdown = 3000, hasPermissions = True, streamRef = Some 1,
       mediaRecorderRef = Some RecPaused, recordedChunksRef = [],
       audioContextRef = Some CtxRunning, analyserRef = True,
       silenceTimerRef = Some 4, silenceThresholdRef = 10, animationFrameRef = 4,
       calibrationData = [10], now = 3600, timers = [], nextTimerId = 5,
       frameRequests = [(4, IDLE)], nextFrameId = 5, liveStreams = [1],
       nextStreamId = 2,
       sinkLog = [(SinkStart, RecInactive), (SinkPause, RecRecording)],
       stopEvents = 0, getUserMediaCalls = 1 \<rparr>"
  by (simp add: exec_defs initial_def pause_trace_def)

section \<open>Resume\<close>

lemma resume_tick:
  assumes "analyserRef s" and "closureState \<noteq> CALIBRATING"
    and "mediaRecorderRef s = Some RecPaused"
    and "\<not> isSilent (averageVolume (getByteFrequencyData spectrum)) (silenceThresholdRef s)"
  shows "runAudioAnalysis closureState spectrum s =
     s\<lparr> recordingState := RECORDING, mediaRecorderRef := Some RecRecording,
        sinkLog := sinkLog s @ [(SinkResume, RecPaused)],
        frameRequests := frameRequests s @ [(nextFrameId s, closureState)],
        nextFrameId := Suc (nextFrameId s), animationFrameRef := nextFrameId s \<rparr>"
  using assms
  by (simp add: runAudioAnalysis_def sinkRequest_def recorder_after_def
      requestAnimationFrame_def Let_def)

text \<open>
  Claim C2. While the capture sink is paused, one run of the analysis on a single sound
  sample (energy at or above the threshold) requests \<open>resume\<close> on the paused sink and
  sets the controller to Recording within that same run; no timer is armed or awaited.
\<close>

theorem resume_is_immediate:
  assumes "analyserRef s" and "closureState \<noteq> CALIBRATING"
    and "mediaRecorderRef s = Some RecPaused"
    and "\<not> isSilent (averageVolume (getByteFrequencyData spectrum)) (silenceThresholdRef s)"
  shows "recordingState (runAudioAnalysis closureState spectrum s) = RECORDING
    \<and> mediaRecorderRef (runAudioAnalysis closureState spectrum s) = Some RecRecording
    \<and> sinkLog (runAudioAnalysis closureState spectrum s) = sinkLog s @ [(SinkResume, RecPaused)]
    \<and> timers (runAudioAnalysis closureState spectrum s) = timers s"
  by (simp add: resume_tick [OF assms])

theorem resume_is_immediate_witness:
  "analyserRef (run room_tone initial pause_trace)
   \<and> IDLE \<noteq> CALIBRATING
   \<and> recordingState (run room_tone initial pause_trace) = PAUSED
   \<and> mediaRecorderRef (run room_tone initial pause_trace) = Some RecPaused
   \<and> \<not> isSilent (averageVolume (getByteFrequencyData (replicate 128 18)))
          (silenceThresholdRef (run room_tone initial pause_trace))
   \<and> recordingState (runAudioAnalysis IDLE (replicate 128 18) (run room_tone initial pause_trace))
       = RECORDING
   \<and> mediaRecorderRef (runAudioAnalysis IDLE (replicate 128 18) (run room_tone initial pause_trace))
       = Some RecRecording
   \<and> sinkLog (runAudioAnalysis IDLE (replicate 128 18) (run room_tone initial pause_trace))
       = [(SinkStart, RecInactive), (SinkPause, RecRecording), (SinkResume, RecPaused)]
   \<and> timers (runAudioAnalysis IDLE (replicate 128 18) (run room_tone initial pause_trace)) = []"
  using resume_is_immediate
    [of "run room_tone initial pause_trace" IDLE "replicate 128 18"]
  by (simp add: paused_state averageVolume_replicate isSilent_def THRESHOLD_MULTIPLIER_def)

section \<open>Cleanup, reset and acquisition failure\<close>

lemma cleanup_fields:
  "recordingState (cleanup s) = recordingState s"
  "videoUrl (cleanup s) = videoUrl s"
  "error (cleanup s) = error s"
  "streamRef (cleanup s) = None"
  "set (liveStreams (cleanup s)) = set (liveStreams s) - set_option (streamRef s)"
  "audioContextRef (cleanup s) = map_option (\<lambda>c. CtxClosed) (audioContextRef s)"
  "mediaRecorderRef (cleanup s) = None"
  "recordedChunksRef (cleanup s) = []"
  "timers (cleanup s) = timers s"
  "sinkLog (cleanup s) = sinkLog s"
  "getUserMediaCalls (cleanup s) = getUserMediaCalls s"
  by (auto simp add: cleanup_def cancelAnimationFrame_def Let_def split: option.splits)

lemma cleanup_cancels_frame:
  "animationFrameRef s \<noteq> 0 \<Longrightarrow> animationFrameRef s \<notin> fst ` set (frameRequests (cleanup s))"
  by (auto simp add: cleanup_def cancelAnimationFrame_def Let_def split: option.splits)

text \<open>
  Claim C10. \<open>handleReset\<close> has no guard on the state it is invoked in: from every
  state it yields Idle with the saved video URL and the error message cleared, the media
  stream's tracks stopped and its ref cleared, the audio context closed, the recorder ref
  cleared and the buffered chunks emptied.
\<close>

theorem reset_from_any_state:
  "recordingState (handleReset s) = IDLE
   \<and> videoUrl (handleReset s) = None
   \<and> error (handleReset s) = None
   \<and> streamRef (handleReset s) = None
   \<and> set (liveStreams (handleReset s)) = set (liveStreams s) - set_option (streamRef s)
   \<and> audioContextRef (handleReset s) = map_option (\<lambda>c. CtxClosed) (audioContextRef s)
   \<and> mediaRecorderRef (handleReset s) = None
   \<and> recordedChunksRef (handleReset s) = []"
  by (simp add: handleReset_def cleanup_fields)

theorem reset_from_any_state_witness:
  "recordingState (run room_tone initial recording_trace) = RECORDING
   \<and> recordingState (handleReset (run room_tone initial recording_trace)) = IDLE
   \<and> videoUrl (handleReset (run room_tone initial recording_trace)) = None
   \<and> error (handleReset (run room_tone initial recording_trace)) = None
   \<and> streamRef (handleReset (run room_tone initial recording_trace)) = None
   \<and> set (liveStreams (handleReset (run room_tone initial recording_trace))) = {}
   \<and> audioContextRef (handleReset (run room_tone initial recording_trace)) = Some CtxClosed
   \<and> mediaRecorderRef (handleReset (run room_tone initial recording_trace)) = None
   \<and> recordedChunksRef (handleReset (run room_tone initial recording_trace)) = []"
  using reset_from_any_state [of "run room_tone initial recording_trace"]
  by (simp add: recording_state)

lemma messages_differ: "constraint_message orient \<noteq> access_message"
  by (cases orient)
     (simp_all add: constraint_message_def access_message_def orientation_name_def)

text \<open>
  Claim C8. When acquisition fails, wherever in the \<open>try\<close> block, \<open>startCalibration\<close>
  ends in Idle with an error message that is the constraint message exactly when the
  thrown error is an OverconstrainedError and the access message otherwise (the two
  differ); whatever was acquired before the failure is released (the stream obtained in
  this attempt is no longer live, no context is left running or suspended, no recorder
  or chunks are held); no timer is left behind that could start another attempt, the sink
  is not touched, and \<open>getUserMedia\<close> has been called exactly once.
\<close>

theorem acquisition_failure_reverts_to_idle:
  "recordingState (startCalibration orient (Failed stage name) s) = IDLE
   \<and> error (startCalibration orient (Failed stage name) s) =
       Some (if name = ''OverconstrainedError'' then constraint_message orient
             else access_message)
   \<and> constraint_message orient \<noteq> access_message
   \<and> streamRef (startCalibration orient (Failed stage name) s) = None
   \<and> set (liveStreams (startCalibration orient (Failed stage name) s)) =
       set (liveStreams s) -
         (case stage of AtGetUserMedia \<Rightarrow> set_option (streamRef s) | _ \<Rightarrow> {nextStreamId s})
   \<and> audioContextRef (startCalibration orient (Failed stage name) s) \<noteq> Some CtxRunning
   \<and> audioContextRef (startCalibration orient (Failed stage name) s) \<noteq> Some CtxSuspended
   \<and> mediaRecorderRef (startCalibration orient (Failed stage name) s) = None
   \<and> recordedChunksRef (startCalibration orient (Failed stage name) s) = []
   \<and> timers (startCalibration orient (Failed stage name) s) = timers s
   \<and> sinkLog (startCalibration orient (Failed stage name) s) = sinkLog s
   \<and> getUserMediaCalls (startCalibration orient (Failed stage name) s)
       = Suc (getUserMediaCalls s)"
  by (cases stage)
     (auto simp add: startCalibration_def catchAcquisition_def cleanup_fields messages_differ
       acquireStream_def Let_def split: option.splits)

theorem acquisition_failure_reverts_to_idle_witness:
  "recordingState
     (startCalibration Portrait (Failed (AtSourceNode CtxRunning) ''OverconstrainedError'') initial)
     = IDLE
   \<and> error
     (startCalibration Portrait (Failed (AtSourceNode CtxRunning) ''OverconstrainedError'') initial)
     = Some ''The selected camera does not support portrait orientation. Please try another setting or camera.''
   \<and> streamRef
     (startCalibration Portrait (Failed (AtSourceNode CtxRunning) ''OverconstrainedError'') initial)
     = None
   \<and> set (liveStreams
     (startCalibration Portrait (Failed (AtSourceNode CtxRunning) ''OverconstrainedError'') initial))
     = {}
   \<and> timers
     (startCalibration Portrait (Failed (AtSourceNode CtxRunning) ''OverconstrainedError'') initial)
     = []
   \<and> getUserMediaCalls
     (startCalibration Portrait (Failed (AtSourceNode CtxRunning) ''OverconstrainedError'') initial)
     = 1"
  using acquisition_failure_reverts_to_idle
    [of Portrait "AtSourceNode CtxRunning" "''OverconstrainedError''" initial]
  by (simp add: initial_def constraint_message_def orientation_name_def)

section \<open>Stop during calibration\<close>

lemma analysis_while_recording:
  "mediaRecorderRef s = Some RecRecording \<Longrightarrow>
   recordingState (runAudioAnalysis cs sp s) = recordingState s
   \<and> sinkLog (runAudioAnalysis cs sp s) = sinkLog s
   \<and> mediaRecorderRef (runAudioAnalysis cs sp s) = Some RecRecording"
  by (simp add: runAudioAnalysis_def requestAnimationFrame_def setTimeout_def clearTimeout_def
      Let_def split: option.splits)

lemma startActualRecording_starts:
  assumes "streamRef s \<noteq> None"
  shows "recordingState (startActualRecording cs sp s) = RECORDING
    \<and> sinkLog (startActualRecording cs sp s) = sinkLog s @ [(SinkStart, RecInactive)]"
proof -
  let ?s2 = "sinkRequest SinkStart
               (s\<lparr> recordingState := RECORDING, mediaRecorderRef := Some RecInactive \<rparr>)"
  have rec: "mediaRecorderRef ?s2 = Some RecRecording"
    by (simp add: sinkRequest_def recorder_after_def)
  obtain sid where "streamRef s = Some sid"
    using assms by auto
  then have "startActualRecording cs sp s = runAudioAnalysis cs sp ?s2"
    by (simp add: startActualRecording_def Let_def)
  then show ?thesis
    using analysis_while_recording [OF rec, of cs sp] by (simp add: sinkRequest_def)
qed

lemma calibration_expiry_starts:
  assumes "streamRef s \<noteq> None"
  shows "recordingState (calibrationTimeoutCallback ci cn cs sp s) = RECORDING
    \<and> sinkLog (calibrationTimeoutCallback ci cn cs sp s) = sinkLog s @ [(SinkStart, RecInactive)]"
proof -
  let ?s2 = "(clearInterval cn (clearInterval ci s))
               \<lparr> silenceThresholdRef := noiseFloor (calibrationData (clearInterval cn (clearInterval ci s))) \<rparr>"
  have "streamRef ?s2 \<noteq> None"
    using assms by (simp add: clearInterval_def clearTimeout_def)
  from startActualRecording_starts [OF this, of cs sp] show ?thesis
    by (simp add: calibrationTimeoutCallback_def Let_def clearInterval_def clearTimeout_def)
qed

lemma stop_without_recorder:
  assumes "mediaRecorderRef s = None"
  shows "stopRecording s = s\<lparr> timers := filter (\<lambda>(i, due, cb). Some i \<noteq> silenceTimerRef s) (timers s) \<rparr>"
  using assms by (cases "silenceTimerRef s") (simp_all add: stopRecording_def clearTimeout_def)

text \<open>
  Claim C7, as amended. The controls offer no stop while calibrating, and a stop request
  received in Calibrating, when no recorder exists yet, is not acted on: the controller
  stays in Calibrating and keeps the stream and the audio context (only a timer named by
  the silence-timer ref is cleared); when the calibration window then expires, the noise
  floor is computed from the samples, the sink's \<open>start\<close> is requested and the
  controller enters Recording.
\<close>

theorem stop_while_calibrating_not_acted_on:
  assumes "recordingState s = CALIBRATING" and "mediaRecorderRef s = None"
    and "streamRef s \<noteq> None"
  shows "renderControls (recordingState s) = None
    \<and> recordingState (stopRecording s) = CALIBRATING
    \<and> streamRef (stopRecording s) = streamRef s
    \<and> liveStreams (stopRecording s) = liveStreams s
    \<and> audioContextRef (stopRecording s) = audioContextRef s
    \<and> sinkLog (stopRecording s) = sinkLog s
    \<and> timers (stopRecording s) = filter (\<lambda>(i, due, cb). Some i \<noteq> silenceTimerRef s) (timers s)
    \<and> recordingState (calibrationTimeoutCallback ci cn cs sp (stopRecording s)) = RECORDING
    \<and> silenceThresholdRef (calibrationTimeoutCallback ci cn cs sp (stopRecording s))
        = noiseFloor (calibrationData s)
    \<and> sinkLog (calibrationTimeoutCallback ci cn cs sp (stopRecording s))
        = sinkLog s @ [(SinkStart, RecInactive)]"
proof -
  let ?s' = "stopRecording s"
  have eq: "?s' = s\<lparr> timers := filter (\<lambda>(i, due, cb). Some i \<noteq> silenceTimerRef s) (timers s) \<rparr>"
    using assms(2) by (rule stop_without_recorder)
  have "streamRef ?s' \<noteq> None"
    using assms(3) by (simp add: eq)
  from calibration_expiry_starts [OF this, of ci cn cs sp]
  have "recordingState (calibrationTimeoutCallback ci cn cs sp ?s') = RECORDING
    \<and> sinkLog (calibrationTimeoutCallback ci cn cs sp ?s') = sinkLog s @ [(SinkStart, RecInactive)]"
    by (simp add: eq)
  moreover have "silenceThresholdRef (calibrationTimeoutCallback ci cn cs sp ?s')
      = noiseFloor (calibrationData s)"
    by (simp add: thr_calibrationTimeoutCallback eq)
  moreover have "renderControls (recordingState s) = None"
    using assms(1) by (simp add: renderControls_def)
  ultimately show ?thesis
    using assms(1) by (simp add: eq)
qed

theorem stop_while_calibrating_not_acted_on_witness:
  "recordingState (run room_tone initial calibrating_trace) = CALIBRATING
   \<and> mediaRecorderRef (run room_tone initial calibrating_trace) = None
   \<and> streamRef (run room_tone initial calibrating_trace) \<noteq> None
   \<and> recordingState (stopRecording (run room_tone initial calibrating_trace)) = CALIBRATING
   \<and> streamRef (stopRecording (run room_tone initial calibrating_trace)) = Some 1
   \<and> liveStreams (stopRecording (run room_tone initial calibrating_trace)) = [1]
   \<and> audioContextRef (stopRecording (run room_tone initial calibrating_trace)) = Some CtxRunning
   \<and> sinkLog (stopRecording (run room_tone initial calibrating_trace)) = []
   \<and> recordingState (calibrationTimeoutCallback 2 1 IDLE (room_tone 3000)
        (stopRecording (run room_tone initial calibrating_trace))) = RECORDING
   \<and> silenceThresholdRef (calibrationTimeoutCallback 2 1 IDLE (room_tone 3000)
        (stopRecording (run room_tone initial calibrating_trace))) = 10
   \<and> sinkLog (calibrationTimeoutCallback 2 1 IDLE (room_tone 3000)
        (stopRecording (run room_tone initial calibrating_trace))) = [(SinkStart, RecInactive)]"
  using stop_while_calibrating_not_acted_on
    [of "run room_tone initial calibrating_trace" 2 1 IDLE "room_tone 3000"]
  by (simp add: calibrating_state noiseFloor_def)

text \<open>The claim as stated fails: one second into calibration a stop request leaves the
  controller in Calibrating with the stream live, and at 3000 the noise floor is computed
  and the sink started.\<close>

theorem stop_while_calibrating_stays_calibrating:
  "recordingState (run room_tone initial calibrating_trace) = CALIBRATING
   \<and> recordingState (run room_tone initial stop_while_calibrating_trace) \<noteq> IDLE
   \<and> recordingState (run room_tone initial stop_while_calibrating_trace) = CALIBRATING
   \<and> liveStreams (run room_tone initial stop_while_calibrating_trace) = [1]
   \<and> audioContextRef (run room_tone initial stop_while_calibrating_trace) = Some CtxRunning
   \<and> silenceThresholdRef (run room_tone initial stop_while_calibrating_trace) = 0
   \<and> silenceThresholdRef (run room_tone initial calibration_completes_trace) = 10
   \<and> sinkLog (run room_tone initial calibration_completes_trace) = [(SinkStart, RecInactive)]
   \<and> recordingState (run room_tone initial calibration_completes_trace) = RECORDING"
  by (simp add: calibrating_state)
     (simp add: exec_defs initial_def stop_while_calibrating_trace_def
        calibration_completes_trace_def)

section \<open>Requests on the capture sink\<close>

lemma ok_silenceTimeoutCallback:
  "sink_log_ok s \<Longrightarrow> sink_log_ok (silenceTimeoutCallback s)"
  by (simp add: sink_log_ok_def silenceTimeoutCallback_def sinkRequest_def)

lemma ok_runAudioAnalysis:
  "sink_log_ok s \<Longrightarrow> sink_log_ok (runAudioAnalysis cs sp s)"
  by (simp add: sink_log_ok_def runAudioAnalysis_def sinkRequest_def requestAnimationFrame_def
      setTimeout_def clearTimeout_def Let_def split: option.splits)

lemma ok_startActualRecording:
  "sink_log_ok s \<Longrightarrow> sink_log_ok (startActualRecording cs sp s)"
proof -
  assume ok: "sink_log_ok s"
  have "sink_log_ok (sinkRequest SinkStart
          (s\<lparr> recordingState := RECORDING, mediaRecorderRef := Some RecInactive \<rparr>))"
    using ok by (simp add: sink_log_ok_def sinkRequest_def)
  then show ?thesis
    using ok by (simp add: startActualRecording_def Let_def ok_runAudioAnalysis)
qed

lemma ok_cleanup: "sink_log_ok (cleanup s) = sink_log_ok s"
  by (simp add: sink_log_ok_def cleanup_fields)

lemma ok_startCalibration:
  "sink_log_ok s \<Longrightarrow> sink_log_ok (startCalibration orient outcome s)"
proof (cases outcome)
  case (Failed stage name)
  assume "sink_log_ok s"
  then show ?thesis using Failed
    by (cases stage)
       (simp_all add: startCalibration_def catchAcquisition_def ok_cleanup acquireStream_def
          Let_def,
        simp_all add: sink_log_ok_def)
next
  case (Acquired ctx)
  assume "sink_log_ok s"
  then show ?thesis using Acquired
    by (simp add: startCalibration_def acquireStream_def setInterval_def setTimeout_def Let_def
        sink_log_ok_def)
qed

lemma ok_stopRecording: "sink_log_ok s \<Longrightarrow> sink_log_ok (stopRecording s)"
  by (auto simp add: sink_log_ok_def stopRecording_def sinkRequest_def clearTimeout_def Let_def
      split: option.splits)

lemma ok_handleReset: "sink_log_ok s \<Longrightarrow> sink_log_ok (handleReset s)"
  by (simp add: handleReset_def ok_cleanup) (simp add: sink_log_ok_def)

lemma ok_onstop: "sink_log_ok s \<Longrightarrow> sink_log_ok (onstop s)"
  by (simp add: onstop_def ok_cleanup) (simp add: sink_log_ok_def)

lemma ok_frames:
  "sink_log_ok acc \<Longrightarrow>
   sink_log_ok (foldl (\<lambda>acc (fid, closureState). runAudioAnalysis closureState sp acc) acc reqs)"
proof (induction reqs arbitrary: acc)
  case Nil
  then show ?case by simp
next
  case (Cons r reqs)
  obtain fid cs where r: "r = (fid, cs)" by (cases r)
  from Cons.prems have "sink_log_ok (runAudioAnalysis cs sp acc)"
    by (rule ok_runAudioAnalysis)
  then show ?case using Cons.IH r by simp
qed

lemma ok_animationFrame: "sink_log_ok s \<Longrightarrow> sink_log_ok (animationFrame sp s)"
  unfolding animationFrame_def by (rule ok_frames) (simp add: sink_log_ok_def)

lemma ok_calibrationTimeoutCallback:
  "sink_log_ok s \<Longrightarrow> sink_log_ok (calibrationTimeoutCallback ci cn cs sp s)"
  unfolding calibrationTimeoutCallback_def Let_def
  by (rule ok_startActualRecording) (simp add: sink_log_ok_def clearInterval_def clearTimeout_def)

lemma ok_timerFires: "sink_log_ok s \<Longrightarrow> sink_log_ok (timerFires tid sp s)"
proof -
  assume ok: "sink_log_ok s"
  have a: "sink_log_ok (clearTimeout tid s)"
    using ok by (simp add: sink_log_ok_def clearTimeout_def)
  have b: "\<And>f. sink_log_ok (collectCalibrationData sp (s\<lparr> timers := f \<rparr>))"
    using ok by (simp add: sink_log_ok_def collectCalibrationData_def)
  have c: "\<And>f. sink_log_ok (countdownTick (s\<lparr> timers := f \<rparr>))"
    using ok by (simp add: sink_log_ok_def countdownTick_def)
  show ?thesis
    using ok a b c
    by (simp add: timerFires_def ok_silenceTimeoutCallback ok_calibrationTimeoutCallback
        split: option.splits callback.splits)
qed

lemma ok_handle: "sink_log_ok s \<Longrightarrow> sink_log_ok (handle sp ev s)"
proof (cases ev)
  case RecorderStopped
  assume ok: "sink_log_ok s"
  have "sink_log_ok (s\<lparr> stopEvents := stopEvents s - 1 \<rparr>)"
    using ok by (simp add: sink_log_ok_def)
  then show ?thesis using ok RecorderStopped by (simp add: handle_def ok_onstop)
next
  case (DataAvailable n)
  assume ok: "sink_log_ok s"
  then show ?thesis
    using DataAvailable by (simp add: handle_def ondataavailable_def sink_log_ok_def)
qed (simp_all add: handle_def ok_startCalibration ok_stopRecording ok_handleReset
       ok_animationFrame ok_timerFires)

lemma ok_step: "sink_log_ok s \<Longrightarrow> sink_log_ok (step signal s tev)"
proof (cases tev)
  case (Pair t ev)
  assume ok: "sink_log_ok s"
  then have "sink_log_ok (s\<lparr> now := t \<rparr>)" by (simp add: sink_log_ok_def)
  then have "sink_log_ok (handle (signal t) ev (s\<lparr> now := t \<rparr>))" by (rule ok_handle)
  then show ?thesis using ok Pair by (simp add: step_def)
qed

lemma ok_run: "sink_log_ok s \<Longrightarrow> sink_log_ok (run signal s evs)"
  unfolding run_def by (induction evs arbitrary: s) (simp_all add: ok_step)

lemma ok_initial: "sink_log_ok initial"
  by (simp add: sink_log_ok_def initial_def)

lemma log_silenceTimeoutCallback:
  "sinkLog (silenceTimeoutCallback s) =
     (if mediaRecorderRef s = Some RecRecording then sinkLog s @ [(SinkPause, RecRecording)]
      else sinkLog s)"
  by (simp add: silenceTimeoutCallback_def sinkRequest_def)

text \<open>
  Claim C6. In every execution from the initial state, whatever the signal and whatever
  events arrive in whatever order, each \<open>pause\<close> requested on the capture sink met a
  recording sink and each \<open>resume\<close> met a paused one. In particular the deferred
  pause of the silence timer is requested only if the sink is recording when the timer's
  callback runs; otherwise the callback requests nothing.
\<close>

theorem sink_requests_guarded:
  "list_all sink_request_ok (sinkLog (run signal initial evs))
   \<and> sinkLog (silenceTimeoutCallback s) =
       (if mediaRecorderRef s = Some RecRecording then sinkLog s @ [(SinkPause, RecRecording)]
        else sinkLog s)"
  using ok_run [OF ok_initial, of signal evs]
  by (simp add: sink_log_ok_def log_silenceTimeoutCallback)

theorem sink_requests_guarded_witness:
  "list_all sink_request_ok (sinkLog (run room_tone initial pause_trace))
   \<and> sinkLog (run room_tone initial pause_trace)
       = [(SinkStart, RecInactive), (SinkPause, RecRecording)]
   \<and> mediaRecorderRef (run room_tone initial pause_trace) = Some RecPaused
   \<and> sinkLog (silenceTimeoutCallback (run room_tone initial pause_trace))
       = [(SinkStart, RecInactive), (SinkPause, RecRecording)]"
  using sink_requests_guarded [of room_tone pause_trace "run room_tone initial pause_trace"]
  by (simp add: paused_state)

section \<open>The silence debounce\<close>

text \<open>A sound sample while recording clears the timer and the ref that names it.\<close>

lemma sound_tick_clears_ref:
  assumes "analyserRef s" and "cs \<noteq> CALIBRATING"
    and "mediaRecorderRef s = Some RecRecording"
    and "\<not> isSilent (averageVolume (getByteFrequencyData sp)) (silenceThresholdRef s)"
  shows "silenceTimerRef (runAudioAnalysis cs sp s) = None
    \<and> timers (runAudioAnalysis cs sp s)
        = filter (\<lambda>(i, due, cb). Some i \<noteq> silenceTimerRef s) (timers s)"
  using assms
  by (cases "silenceTimerRef s")
     (simp_all add: runAudioAnalysis_def requestAnimationFrame_def clearTimeout_def Let_def)

text \<open>A silent sample while recording arms the timer, for 500 ms, when the ref is empty.\<close>

lemma silent_tick_arms_timer:
  assumes "analyserRef s" and "cs \<noteq> CALIBRATING"
    and "mediaRecorderRef s = Some RecRecording" and "silenceTimerRef s = None"
    and "isSilent (averageVolume (getByteFrequencyData sp)) (silenceThresholdRef s)"
  shows "silenceTimerRef (runAudioAnalysis cs sp s) = Some (nextTimerId s)
    \<and> timers (runAudioAnalysis cs sp s) = timers s @ [(nextTimerId s, now s + 500, SilenceTimeout)]"
  using assms
  by (simp add: runAudioAnalysis_def requestAnimationFrame_def setTimeout_def
      SILENCE_DETECTION_TIME_MS_def Let_def)

text \<open>Neither the timer's own callback nor \<open>stopRecording\<close> empties the ref, and a
  silent sample arms nothing while the ref holds an id, live or not.\<close>

lemma timeout_keeps_ref: "silenceTimerRef (silenceTimeoutCallback s) = silenceTimerRef s"
  by (simp add: silenceTimeoutCallback_def sinkRequest_def)

lemma stop_keeps_ref: "silenceTimerRef (stopRecording s) = silenceTimerRef s"
  by (simp add: stopRecording_def sinkRequest_def clearTimeout_def Let_def split: option.splits)

lemma silent_tick_with_ref_set:
  assumes "analyserRef s" and "cs \<noteq> CALIBRATING"
    and "mediaRecorderRef s = Some RecRecording" and "silenceTimerRef s = Some tid"
    and "isSilent (averageVolume (getByteFrequencyData sp)) (silenceThresholdRef s)"
  shows "timers (runAudioAnalysis cs sp s) = timers s
    \<and> silenceTimerRef (runAudioAnalysis cs sp s) = Some tid
    \<and> recordingState (runAudioAnalysis cs sp s) = recordingState s
    \<and> mediaRecorderRef (runAudioAnalysis cs sp s) = Some RecRecording"
  using assms
  by (simp add: runAudioAnalysis_def requestAnimationFrame_def Let_def)

text \<open>In a first session the pause comes with the timer, 500 ms after the silence set in
  at 3100, and not one millisecond earlier.\<close>

lemma first_session_pauses_on_time:
  "recordingState (run room_tone initial early_trace) = RECORDING
   \<and> now (run room_tone initial early_trace) = 3599
   \<and> recordingState (run room_tone initial pause_trace) = PAUSED
   \<and> now (run room_tone initial pause_trace) = 3600"
  by (simp add: early_state paused_state)

text \<open>Within one session: after a pause and a resume on a single sound sample, the ref
  still names the timer that fired, and 550 ms of silence arm no timer and bring no
  pause.\<close>

lemma no_pause_after_resume:
  "user_trace click_tone initial resumed_trace
   \<and> recordingState (run click_tone initial resumed_trace) = RECORDING
   \<and> mediaRecorderRef (run click_tone initial resumed_trace) = Some RecRecording
   \<and> silenceTimerRef (run click_tone initial resumed_trace) = Some 4
   \<and> timers (run click_tone initial resumed_trace) = []
   \<and> sinkLog (run click_tone initial resumed_trace)
       = [(SinkStart, RecInactive), (SinkPause, RecRecording), (SinkResume, RecPaused)]"
  by (simp add: exec_defs click_tone_def initial_def resumed_trace_def)

lemma room_tone_silent: "3100 \<le> t \<Longrightarrow> isSilent (averageVolume (getByteFrequencyData (room_tone t))) 10"
  by (simp add: room_tone_def averageVolume_replicate isSilent_def THRESHOLD_MULTIPLIER_def)

text \<open>
  Claim C1. The claim asks for a pause after 500 ms of uninterrupted silence in every
  reachable state, also in a session started after a previous stop. In the execution
  below, all of whose clicks are offered by the controls, the first session is stopped
  100 ms into a silence; \<open>stopRecording\<close> clears the timer but leaves its id in the
  ref. In the second session recording starts at 9000 into silence, every sample from
  9000 to 9550 is silent, and at 9600 the controller is still Recording, the sink was
  never asked to pause, and no timer is pending that could ever ask.
\<close>

theorem stale_timer_ref_blocks_pause:
  "user_trace room_tone initial second_session_trace
   \<and> isSilent (averageVolume (getByteFrequencyData (room_tone 9000))) 10
   \<and> isSilent (averageVolume (getByteFrequencyData (room_tone 9550))) 10
   \<and> silenceThresholdRef (run room_tone initial second_session_trace) = 10
   \<and> now (run room_tone initial second_session_trace) = 9600
   \<and> recordingState (run room_tone initial second_session_trace) = RECORDING
   \<and> mediaRecorderRef (run room_tone initial second_session_trace) = Some RecRecording
   \<and> silenceTimerRef (run room_tone initial second_session_trace) = Some 4
   \<and> timers (run room_tone initial second_session_trace) = []
   \<and> sinkLog (run room_tone initial second_session_trace)
       = [(SinkStart, RecInactive), (SinkStop, RecRecording), (SinkStart, RecInactive)]"
  by (simp add: room_tone_silent)
     (simp add: exec_defs initial_def second_session_trace_def)

end
